theory Spec2Isabelle
  imports Complex_Main
begin

section \<open>Comic documents: likes, and the genre and tag counters\<close>

text \<open>
  The part of \<^verbatim>\<open>src/models/comic.model.ts\<close>, \<^verbatim>\<open>tag.model.ts\<close>, the genre model
  and the comic controller that the like protocol and the denormalised counters
  live in. A comic document keeps the fields these operations read or write; the
  other schema fields (title, media, pricing and so on) play no part and are left out.
  The store holds the comics collection and, for the genres and the tags collection,
  the \<^verbatim>\<open>comicCount\<close> of every document by its id.
\<close>

type_synonym object_id = string

datatype error =
    ValidationError
  | BadRequestError string
  | NotFoundError string
  | ForbiddenError string

datatype comic_status = Draft | Published | Scheduled | Archived

record comic =
  comic_id :: object_id
  slug :: string
  status :: comic_status
  likes :: int
  likedBy :: "string list"
  genres :: "object_id list"
  tags :: "object_id list"
  deletedAt :: "nat option"

record store =
  comics :: "comic list"
  genreCount :: "object_id \<rightharpoonup> int"
  tagCount :: "object_id \<rightharpoonup> int"

text \<open>
  \<^verbatim>\<open>incrementCount\<close> and \<^verbatim>\<open>decrementCount\<close> are
  \<^verbatim>\<open>findByIdAndUpdate(id, { $inc: { comicCount: \<plusminus>1 } })\<close>: an id that is not in the
  collection changes nothing, and update validators are not run, so the count has no floor.
\<close>

definition incrementCount :: "(object_id \<rightharpoonup> int) \<Rightarrow> object_id \<Rightarrow> (object_id \<rightharpoonup> int)" where
  "incrementCount m i = (case m i of None \<Rightarrow> m | Some c \<Rightarrow> m(i \<mapsto> c + 1))"

definition decrementCount :: "(object_id \<rightharpoonup> int) \<Rightarrow> object_id \<Rightarrow> (object_id \<rightharpoonup> int)" where
  "decrementCount m i = (case m i of None \<Rightarrow> m | Some c \<Rightarrow> m(i \<mapsto> c - 1))"

text \<open>
  The \<^verbatim>\<open>post('save')\<close> hook of the comic schema: one increment for every genre
  and every tag of the saved document. It runs after every \<^verbatim>\<open>save()\<close>.
\<close>

definition post_save :: "comic \<Rightarrow> store \<Rightarrow> store" where
  "post_save doc st =
     st\<lparr>genreCount := fold (\<lambda>g m. incrementCount m g) (genres doc) (genreCount st),
        tagCount := fold (\<lambda>t m. incrementCount m t) (tags doc) (tagCount st)\<rparr>"

text \<open>
  The \<^verbatim>\<open>pre('findOneAndDelete')\<close> hook: one decrement for every genre and every tag of
  the document the query finds.
\<close>

definition pre_findOneAndDelete :: "comic option \<Rightarrow> store \<Rightarrow> store" where
  "pre_findOneAndDelete found st =
     (case found of
        None \<Rightarrow> st
      | Some doc \<Rightarrow>
          st\<lparr>genreCount := fold (\<lambda>g m. decrementCount m g) (genres doc) (genreCount st),
             tagCount := fold (\<lambda>t m. decrementCount m t) (tags doc) (tagCount st)\<rparr>)"

definition findById :: "store \<Rightarrow> object_id \<Rightarrow> comic option" where
  "findById st i = find (\<lambda>c. comic_id c = i) (comics st)"

definition findOneBySlug :: "store \<Rightarrow> string \<Rightarrow> comic option" where
  "findOneBySlug st s = find (\<lambda>c. slug c = s) (comics st)"

text \<open>
  Writing a document: a document with the same id is replaced in place, a new one is
  appended.
\<close>

fun upsert :: "comic \<Rightarrow> comic list \<Rightarrow> comic list" where
  "upsert doc [] = [doc]"
| "upsert doc (c # cs) = (if comic_id c = comic_id doc then doc # cs else c # upsert doc cs)"

text \<open>
  \<^verbatim>\<open>doc.save()\<close>: the schema validators run first (of the modelled fields only
  \<^verbatim>\<open>likes\<close> has one, \<^verbatim>\<open>min: 0\<close>), a failing validator rejects the save and
  nothing is written; otherwise the document is written and the post-save hook runs.
\<close>

definition save :: "comic \<Rightarrow> store \<Rightarrow> error + store" where
  "save doc st =
     (if likes doc < 0 then Inl ValidationError
      else Inr (post_save doc (st\<lparr>comics := upsert doc (comics st)\<rparr>)))"

text \<open>\<^verbatim>\<open>Array.prototype.splice(index, 1)\<close> at the index \<^verbatim>\<open>indexOf\<close> found: the first
  occurrence is removed. \<^verbatim>\<open>indexOf\<close> returns \<^verbatim>\<open>-1\<close> when there is none.\<close>

fun indexOf :: "string list \<Rightarrow> string \<Rightarrow> int" where
  "indexOf [] u = -1"
| "indexOf (x # xs) u = (if x = u then 0 else (let i = indexOf xs u in if i > -1 then i + 1 else -1))"

definition splice1 :: "nat \<Rightarrow> string list \<Rightarrow> string list" where
  "splice1 i xs = take i xs @ drop (Suc i) xs"

definition like :: "string \<Rightarrow> comic \<Rightarrow> store \<Rightarrow> error + (bool \<times> comic \<times> store)" where
  "like userId doc st =
     (if userId \<notin> set (likedBy doc) then
        (let doc' = doc\<lparr>likedBy := likedBy doc @ [userId], likes := likes doc + 1\<rparr>
         in case save doc' st of
              Inl e \<Rightarrow> Inl e
            | Inr st' \<Rightarrow> Inr (True, doc', st'))
      else Inr (False, doc, st))"

definition unlike :: "string \<Rightarrow> comic \<Rightarrow> store \<Rightarrow> error + (bool \<times> comic \<times> store)" where
  "unlike userId doc st =
     (let index = indexOf (likedBy doc) userId in
      if index > -1 then
        (let doc' = doc\<lparr>likedBy := splice1 (nat index) (likedBy doc), likes := likes doc - 1\<rparr>
         in case save doc' st of
              Inl e \<Rightarrow> Inl e
            | Inr st' \<Rightarrow> Inr (True, doc', st'))
      else Inr (False, doc, st))"

definition hasLiked :: "string \<Rightarrow> comic \<Rightarrow> bool" where
  "hasLiked userId doc = (userId \<in> set (likedBy doc))"

text \<open>A finite sequence of \<^verbatim>\<open>like\<close> and \<^verbatim>\<open>unlike\<close> calls on one document; a rejected
  save ends the sequence with its error, as the exception would.\<close>

datatype like_call = Like string | Unlike string

fun call :: "like_call \<Rightarrow> comic \<Rightarrow> store \<Rightarrow> error + (bool \<times> comic \<times> store)" where
  "call (Like u) doc st = like u doc st"
| "call (Unlike u) doc st = unlike u doc st"

fun calls :: "like_call list \<Rightarrow> comic \<Rightarrow> store \<Rightarrow> error + (comic \<times> store)" where
  "calls [] doc st = Inr (doc, st)"
| "calls (c # cs) doc st =
     (case call c doc st of
        Inl e \<Rightarrow> Inl e
      | Inr (_, doc', st') \<Rightarrow> calls cs doc' st')"

text \<open>The valid states of a likeable entity: the counter is the number of entries of
  \<^verbatim>\<open>likedBy\<close>, which has no duplicates.\<close>

definition valid_likes :: "comic \<Rightarrow> bool" where
  "valid_likes doc = (likes doc = int (length (likedBy doc)) \<and> distinct (likedBy doc))"

subsection \<open>The comic controller\<close>

text \<open>
  The handlers of \<^verbatim>\<open>ComicController\<close> that write: \<^verbatim>\<open>createComic\<close>,
  \<^verbatim>\<open>deleteComic\<close>, \<^verbatim>\<open>likeComic\<close> and \<^verbatim>\<open>unlikeComic\<close>. The id of a new
  document is chosen by the driver and is a parameter here, as is the clock reading of
  \<^verbatim>\<open>softDelete\<close>. Slugs are compared as they are given (the schema's lowercase
  setter is left out). An absent \<^verbatim>\<open>genres\<close> or \<^verbatim>\<open>tags\<close> array of the payload becomes
  the empty array of the schema.
\<close>

record createComicDto =
  dto_slug :: string
  dto_status :: "comic_status option"
  dto_genres :: "object_id list option"
  dto_tags :: "object_id list option"

definition createComic :: "createComicDto \<Rightarrow> object_id \<Rightarrow> store \<Rightarrow> error + (comic \<times> store)" where
  "createComic comicData newId st =
     (case findOneBySlug st (dto_slug comicData) of
        Some existing \<Rightarrow> Inl (BadRequestError ''Slug already in use'')
      | None \<Rightarrow>
          (let doc = \<lparr>comic_id = newId,
                      slug = dto_slug comicData,
                      status = (case dto_status comicData of None \<Rightarrow> Draft | Some s \<Rightarrow> s),
                      likes = 0,
                      likedBy = [],
                      genres = (case dto_genres comicData of None \<Rightarrow> [] | Some gs \<Rightarrow> gs),
                      tags = (case dto_tags comicData of None \<Rightarrow> [] | Some ts \<Rightarrow> ts),
                      deletedAt = None\<rparr>
           in case save doc st of
                Inl e \<Rightarrow> Inl e
              | Inr st' \<Rightarrow> Inr (doc, st')))"

definition softDelete :: "nat \<Rightarrow> comic \<Rightarrow> store \<Rightarrow> error + store" where
  "softDelete now doc st = save (doc\<lparr>deletedAt := Some now\<rparr>) st"

definition deleteComic :: "object_id \<Rightarrow> nat \<Rightarrow> store \<Rightarrow> error + store" where
  "deleteComic i now st =
     (case findById st i of
        None \<Rightarrow> Inl (NotFoundError ''Comic not found'')
      | Some doc \<Rightarrow> softDelete now doc st)"

text \<open>The response of the like handlers carries the counter and the flag.\<close>

definition likeComic :: "object_id \<Rightarrow> string \<Rightarrow> store \<Rightarrow> error + ((int \<times> bool) \<times> store)" where
  "likeComic i userId st =
     (if userId = [] then Inl (BadRequestError ''User identifier is required'')
      else case findById st i of
        None \<Rightarrow> Inl (NotFoundError ''comic not found'')
      | Some doc \<Rightarrow>
          if status doc \<noteq> Published then Inl (ForbiddenError ''Cannot like unpublished comic'')
          else (case like userId doc st of
                  Inl e \<Rightarrow> Inl e
                | Inr (liked, doc', st') \<Rightarrow> Inr ((likes doc', liked), st')))"

definition unlikeComic :: "object_id \<Rightarrow> string \<Rightarrow> store \<Rightarrow> error + ((int \<times> bool) \<times> store)" where
  "unlikeComic i userId st =
     (if userId = [] then Inl (BadRequestError ''User identifier is required'')
      else case findById st i of
        None \<Rightarrow> Inl (NotFoundError ''Comic not found'')
      | Some doc \<Rightarrow>
          (case unlike userId doc st of
             Inl e \<Rightarrow> Inl e
           | Inr (unliked, doc', st') \<Rightarrow> Inr ((likes doc', unliked), st')))"

text \<open>The number the counter of a tag or genre is meant to hold: the comics that are not
  deleted and reference it.\<close>

definition referencingTag :: "store \<Rightarrow> object_id \<Rightarrow> int" where
  "referencingTag st t = int (length (filter (\<lambda>c. t \<in> set (tags c) \<and> deletedAt c = None) (comics st)))"

definition referencingGenre :: "store \<Rightarrow> object_id \<Rightarrow> int" where
  "referencingGenre st g = int (length (filter (\<lambda>c. g \<in> set (genres c) \<and> deletedAt c = None) (comics st)))"

section \<open>Analytics: the trend of two period counts\<close>








text \<open>
  \<^verbatim>\<open>getOverview(@QueryParam('days') days: number = 30)\<close>: the guard comes first, and
  everything after it (the windows and the read-only queries behind the statistics) is
  the parameter \<open>compute\<close>, a function of the window length.
\<close>

definition getOverview :: "(rat \<Rightarrow> 'r) \<Rightarrow> rat option \<Rightarrow> error + 'r" where
  "getOverview compute daysParam =
     (let days = (case daysParam of None \<Rightarrow> 30 | Some d \<Rightarrow> d)
      in if days > 365 then Inl (BadRequestError ''Date range cannot exceed 365 days'')
         else Inr (compute days))"

section \<open>Slugs of blog posts\<close>















section \<open>The tag cloud\<close>

text \<open>
  \<^verbatim>\<open>TagController.getTagCloud\<close>. A query parameter that is absent or not a number is
  \<open>None\<close>; \<^verbatim>\<open>parseInt(q) || d\<close> falls back to \<open>d\<close> for these and for \<open>0\<close>. The query
  keeps the tags with at least \<open>minCount\<close> comics, sorts them by falling count and cuts
  the list at the limit (a negative limit counts by its absolute value). As for the
  trend, the arithmetic is on exact rationals. \<^verbatim>\<open>Math.round\<close> rounds to the nearest
  integer, a half upwards.
\<close>

record tag =
  tag_name :: string
  comicCount :: int

definition parseIntOr :: "int option \<Rightarrow> int \<Rightarrow> int" where
  "parseIntOr q d = (case q of None \<Rightarrow> d | Some n \<Rightarrow> if n = 0 then d else n)"

definition Math_round :: "rat \<Rightarrow> int" where
  "Math_round x = \<lfloor>x + 1 / 2\<rfloor>"

definition findTags :: "tag list \<Rightarrow> int \<Rightarrow> int \<Rightarrow> tag list" where
  "findTags db minCount limit =
     take (nat \<bar>limit\<bar>) (sort_key (\<lambda>t. - comicCount t) (filter (\<lambda>t. comicCount t \<ge> minCount) db))"

definition cloudMaxCount :: "tag list \<Rightarrow> int" where
  "cloudMaxCount ts = (case ts of [] \<Rightarrow> 1 | t # _ \<Rightarrow> if comicCount t = 0 then 1 else comicCount t)"

definition fontSize :: "int \<Rightarrow> int \<Rightarrow> int \<Rightarrow> int" where
  "fontSize minCount maxCount cnt =
     (let minFontSize = 12;
          maxFontSize = 32;
          divisor = (if maxCount - minCount > 0 then maxCount - minCount else 1);
          fs = minFontSize + (of_int (cnt - minCount) / of_int divisor) * (maxFontSize - minFontSize)
      in Math_round fs)"

definition getTagCloud :: "tag list \<Rightarrow> int option \<Rightarrow> int option \<Rightarrow> (tag \<times> int) list" where
  "getTagCloud db qMinCount qLimit =
     (let minCount = parseIntOr qMinCount 1;
          limit = parseIntOr qLimit 50;
          ts = findTags db minCount limit;
          maxCount = cloudMaxCount ts
      in map (\<lambda>t. (t, fontSize minCount maxCount (comicCount t))) ts)"

text \<open>The interpolation as the specification words it, for comparison: no rounding, and
  \<open>maxCount\<close> the largest count present.\<close>

definition spec_fontSize :: "int \<Rightarrow> int \<Rightarrow> int \<Rightarrow> rat" where
  "spec_fontSize minCount maxCount cnt =
     12 + (of_int (cnt - minCount) / of_int (max (maxCount - minCount) 1)) * (32 - 12)"

section \<open>Login and the lockout\<close>










section \<open>Proofs\<close>

subsection \<open>Facts about the like protocol\<close>

lemma indexOf_ge: "- 1 \<le> indexOf xs u"
  by (induction xs) (auto simp: Let_def)

lemma indexOf_absent: "u \<notin> set xs \<Longrightarrow> indexOf xs u = - 1"
  by (induction xs) (auto simp: Let_def)

lemma indexOf_present: "u \<in> set xs \<Longrightarrow> 0 \<le> indexOf xs u \<and> nat (indexOf xs u) < length xs"
  by (induction xs) (auto simp: Let_def)

lemma indexOf_iff: "indexOf xs u > - 1 \<longleftrightarrow> u \<in> set xs"
proof (cases "u \<in> set xs")
  case True
  with indexOf_present [of u xs] show ?thesis by simp
next
  case False
  with indexOf_absent [of u xs] show ?thesis by simp
qed

lemma splice1_indexOf: "u \<in> set xs \<Longrightarrow> splice1 (nat (indexOf xs u)) xs = remove1 u xs"
proof (induction xs)
  case Nil
  then show ?case by simp
next
  case (Cons x xs)
  show ?case
  proof (cases "x = u")
    case True
    then show ?thesis by (simp add: splice1_def)
  next
    case False
    with Cons.prems have mem: "u \<in> set xs" by simp
    from indexOf_present [OF mem] have pos: "0 \<le> indexOf xs u" by simp
    then have "nat (indexOf xs u + 1) = Suc (nat (indexOf xs u))" by simp
    with False pos Cons.IH [OF mem] show ?thesis
      by (simp add: splice1_def Let_def)
  qed
qed

lemma length_remove1_int: "u \<in> set xs \<Longrightarrow> int (length (remove1 u xs)) = int (length xs) - 1"
  by (induction xs) auto

lemma like_valid:
  assumes "valid_likes doc"
  shows "\<exists>b doc' st'. like u doc st = Inr (b, doc', st') \<and> valid_likes doc'"
  using assms by (auto simp: like_def save_def valid_likes_def Let_def)

lemma unlike_valid:
  assumes "valid_likes doc"
  shows "\<exists>b doc' st'. unlike u doc st = Inr (b, doc', st') \<and> valid_likes doc'"
proof (cases "u \<in> set (likedBy doc)")
  case True
  then have idx: "indexOf (likedBy doc) u > - 1" by (simp add: indexOf_iff)
  from True have len: "0 < length (likedBy doc)" by (cases "likedBy doc") auto
  from True have "int (length (remove1 u (likedBy doc))) = int (length (likedBy doc)) - 1"
    by (rule length_remove1_int)
  with assms True idx len show ?thesis
    by (auto simp: unlike_def save_def valid_likes_def Let_def splice1_indexOf)
next
  case False
  then have "\<not> indexOf (likedBy doc) u > - 1" by (simp add: indexOf_iff)
  with assms show ?thesis by (auto simp: unlike_def Let_def)
qed

lemma call_valid:
  assumes "valid_likes doc"
  shows "\<exists>b doc' st'. call c doc st = Inr (b, doc', st') \<and> valid_likes doc'"
proof (cases c)
  case (Like u)
  with like_valid [OF assms, of u st] show ?thesis by simp
next
  case (Unlike u)
  with unlike_valid [OF assms, of u st] show ?thesis by simp
qed

lemma calls_valid:
  "valid_likes doc \<Longrightarrow> \<exists>doc' st'. calls cs doc st = Inr (doc', st') \<and> valid_likes doc'"
proof (induction cs arbitrary: doc st)
  case Nil
  then show ?case by simp
next
  case (Cons c cs)
  from call_valid [OF Cons.prems, of c st]
  obtain b doc1 st1 where step: "call c doc st = Inr (b, doc1, st1)" and v: "valid_likes doc1"
    by blast
  from Cons.IH [OF v, of st1] step show ?case by simp
qed


subsection \<open>Claims about the like protocol\<close>

text \<open>
  Claim C1. From a valid state of a comic (\<^verbatim>\<open>likes\<close> is the number of entries of
  \<^verbatim>\<open>likedBy\<close>, and \<^verbatim>\<open>likedBy\<close> has no duplicates), every finite sequence of
  \<^verbatim>\<open>like\<close> and \<^verbatim>\<open>unlike\<close> calls runs to its end without a rejected save, and
  afterwards \<^verbatim>\<open>likes\<close> is again the number of entries of \<^verbatim>\<open>likedBy\<close>.
\<close>
theorem likes_eq_length_likedBy:
  assumes "likes doc = int (length (likedBy doc))" and "distinct (likedBy doc)"
  shows "\<exists>doc' st'. calls cs doc st = Inr (doc', st') \<and> likes doc' = int (length (likedBy doc'))"
  using calls_valid [of doc cs st] assms unfolding valid_likes_def by blast

theorem likes_eq_length_likedBy_witness:
  "likes \<lparr>comic_id = ''c1'', slug = ''a'', status = Published, likes = 1, likedBy = [''u1''],
          genres = [], tags = [''t1''], deletedAt = None\<rparr>
     = int (length (likedBy \<lparr>comic_id = ''c1'', slug = ''a'', status = Published, likes = 1,
          likedBy = [''u1''], genres = [], tags = [''t1''], deletedAt = None\<rparr>))
   \<and> distinct (likedBy \<lparr>comic_id = ''c1'', slug = ''a'', status = Published, likes = 1,
          likedBy = [''u1''], genres = [], tags = [''t1''], deletedAt = None\<rparr>)
   \<and> (\<exists>doc' st'.
         calls [Like ''u2'', Unlike ''u1'', Unlike ''u3'', Like ''u2'']
           \<lparr>comic_id = ''c1'', slug = ''a'', status = Published, likes = 1, likedBy = [''u1''],
            genres = [], tags = [''t1''], deletedAt = None\<rparr>
           \<lparr>comics = [], genreCount = Map.empty, tagCount = Map.empty\<rparr> = Inr (doc', st')
         \<and> likes doc' = int (length (likedBy doc')))"
  using likes_eq_length_likedBy
    [of "\<lparr>comic_id = ''c1'', slug = ''a'', status = Published, likes = 1, likedBy = [''u1''],
          genres = [], tags = [''t1''], deletedAt = None\<rparr>"
        "[Like ''u2'', Unlike ''u1'', Unlike ''u3'', Like ''u2'']"
        "\<lparr>comics = [], genreCount = Map.empty, tagCount = Map.empty\<rparr>"]
  by simp

text \<open>
  Claim C3. On a document whose counter is not negative, \<^verbatim>\<open>like\<close> returns true, appends
  the user to \<^verbatim>\<open>likedBy\<close> and adds one to \<^verbatim>\<open>likes\<close> exactly when the user was
  not in \<^verbatim>\<open>likedBy\<close>; when the user is there it returns false and changes nothing.
  After any successful call the user has liked, and a second call with the same user
  returns false and changes nothing: two calls change the state once.
\<close>
theorem like_changes_state_once:
  assumes "0 \<le> likes doc"
  shows "like userId doc st =
           (if userId \<in> set (likedBy doc) then Inr (False, doc, st)
            else Inr (True, doc\<lparr>likedBy := likedBy doc @ [userId], likes := likes doc + 1\<rparr>,
                   post_save (doc\<lparr>likedBy := likedBy doc @ [userId], likes := likes doc + 1\<rparr>)
                     (st\<lparr>comics := upsert (doc\<lparr>likedBy := likedBy doc @ [userId], likes := likes doc + 1\<rparr>)
                                     (comics st)\<rparr>)))
         \<and> (\<forall>b doc1 st1. like userId doc st = Inr (b, doc1, st1) \<longrightarrow>
               hasLiked userId doc1 \<and> like userId doc1 st1 = Inr (False, doc1, st1))"
  using assms by (auto simp: like_def save_def Let_def hasLiked_def)

theorem like_changes_state_once_witness:
  "0 \<le> likes \<lparr>comic_id = ''c1'', slug = ''a'', status = Published, likes = 1, likedBy = [''u1''],
          genres = [], tags = [], deletedAt = None\<rparr>
   \<and> like ''u2'' \<lparr>comic_id = ''c1'', slug = ''a'', status = Published, likes = 1, likedBy = [''u1''],
          genres = [], tags = [], deletedAt = None\<rparr>
        \<lparr>comics = [], genreCount = Map.empty, tagCount = Map.empty\<rparr>
     = Inr (True,
         \<lparr>comic_id = ''c1'', slug = ''a'', status = Published, likes = 2, likedBy = [''u1'', ''u2''],
          genres = [], tags = [], deletedAt = None\<rparr>,
         \<lparr>comics = [\<lparr>comic_id = ''c1'', slug = ''a'', status = Published, likes = 2,
                     likedBy = [''u1'', ''u2''], genres = [], tags = [], deletedAt = None\<rparr>],
          genreCount = Map.empty, tagCount = Map.empty\<rparr>)
   \<and> like ''u2''
         \<lparr>comic_id = ''c1'', slug = ''a'', status = Published, likes = 2, likedBy = [''u1'', ''u2''],
          genres = [], tags = [], deletedAt = None\<rparr>
         \<lparr>comics = [\<lparr>comic_id = ''c1'', slug = ''a'', status = Published, likes = 2,
                     likedBy = [''u1'', ''u2''], genres = [], tags = [], deletedAt = None\<rparr>],
          genreCount = Map.empty, tagCount = Map.empty\<rparr>
     = Inr (False,
         \<lparr>comic_id = ''c1'', slug = ''a'', status = Published, likes = 2, likedBy = [''u1'', ''u2''],
          genres = [], tags = [], deletedAt = None\<rparr>,
         \<lparr>comics = [\<lparr>comic_id = ''c1'', slug = ''a'', status = Published, likes = 2,
                     likedBy = [''u1'', ''u2''], genres = [], tags = [], deletedAt = None\<rparr>],
          genreCount = Map.empty, tagCount = Map.empty\<rparr>)
   \<and> like ''u1'' \<lparr>comic_id = ''c1'', slug = ''a'', status = Published, likes = 1, likedBy = [''u1''],
          genres = [], tags = [], deletedAt = None\<rparr>
        \<lparr>comics = [], genreCount = Map.empty, tagCount = Map.empty\<rparr>
     = Inr (False,
         \<lparr>comic_id = ''c1'', slug = ''a'', status = Published, likes = 1, likedBy = [''u1''],
          genres = [], tags = [], deletedAt = None\<rparr>,
         \<lparr>comics = [], genreCount = Map.empty, tagCount = Map.empty\<rparr>)"
proof -
  have h: "0 \<le> likes \<lparr>comic_id = ''c1'', slug = ''a'', status = Published, likes = 1,
          likedBy = [''u1''], genres = [], tags = [], deletedAt = None\<rparr>"
    by simp
  note first = like_changes_state_once
    [OF h, of "''u2''" "\<lparr>comics = [], genreCount = Map.empty, tagCount = Map.empty\<rparr>"]
  note again = like_changes_state_once
    [OF h, of "''u1''" "\<lparr>comics = [], genreCount = Map.empty, tagCount = Map.empty\<rparr>"]
  from first have r1: "like ''u2'' \<lparr>comic_id = ''c1'', slug = ''a'', status = Published, likes = 1,
          likedBy = [''u1''], genres = [], tags = [], deletedAt = None\<rparr>
        \<lparr>comics = [], genreCount = Map.empty, tagCount = Map.empty\<rparr>
     = Inr (True,
         \<lparr>comic_id = ''c1'', slug = ''a'', status = Published, likes = 2, likedBy = [''u1'', ''u2''],
          genres = [], tags = [], deletedAt = None\<rparr>,
         \<lparr>comics = [\<lparr>comic_id = ''c1'', slug = ''a'', status = Published, likes = 2,
                     likedBy = [''u1'', ''u2''], genres = [], tags = [], deletedAt = None\<rparr>],
          genreCount = Map.empty, tagCount = Map.empty\<rparr>)"
    by (simp add: post_save_def)
  from first r1 have r2: "like ''u2''
         \<lparr>comic_id = ''c1'', slug = ''a'', status = Published, likes = 2, likedBy = [''u1'', ''u2''],
          genres = [], tags = [], deletedAt = None\<rparr>
         \<lparr>comics = [\<lparr>comic_id = ''c1'', slug = ''a'', status = Published, likes = 2,
                     likedBy = [''u1'', ''u2''], genres = [], tags = [], deletedAt = None\<rparr>],
          genreCount = Map.empty, tagCount = Map.empty\<rparr>
     = Inr (False,
         \<lparr>comic_id = ''c1'', slug = ''a'', status = Published, likes = 2, likedBy = [''u1'', ''u2''],
          genres = [], tags = [], deletedAt = None\<rparr>,
         \<lparr>comics = [\<lparr>comic_id = ''c1'', slug = ''a'', status = Published, likes = 2,
                     likedBy = [''u1'', ''u2''], genres = [], tags = [], deletedAt = None\<rparr>],
          genreCount = Map.empty, tagCount = Map.empty\<rparr>)"
    by blast
  from again have r3: "like ''u1'' \<lparr>comic_id = ''c1'', slug = ''a'', status = Published, likes = 1,
          likedBy = [''u1''], genres = [], tags = [], deletedAt = None\<rparr>
        \<lparr>comics = [], genreCount = Map.empty, tagCount = Map.empty\<rparr>
     = Inr (False,
         \<lparr>comic_id = ''c1'', slug = ''a'', status = Published, likes = 1, likedBy = [''u1''],
          genres = [], tags = [], deletedAt = None\<rparr>,
         \<lparr>comics = [], genreCount = Map.empty, tagCount = Map.empty\<rparr>)"
    by simp
  from h r1 r2 r3 show ?thesis by blast
qed

text \<open>
  Claim C4. \<^verbatim>\<open>unlike\<close> for a user who is not in \<^verbatim>\<open>likedBy\<close> returns false, raises
  nothing and changes nothing. From a valid state, after every sequence of \<^verbatim>\<open>like\<close>
  and \<^verbatim>\<open>unlike\<close> calls the counter is not negative, no user occurs twice in
  \<^verbatim>\<open>likedBy\<close>, and the counter is the number of distinct users.
\<close>
theorem unlike_absent_is_noop:
  "(userId \<notin> set (likedBy doc) \<longrightarrow> unlike userId doc st = Inr (False, doc, st))
   \<and> (likes doc = int (length (likedBy doc)) \<and> distinct (likedBy doc) \<longrightarrow>
        (\<exists>doc' st'. calls cs doc st = Inr (doc', st')
           \<and> 0 \<le> likes doc' \<and> distinct (likedBy doc')
           \<and> likes doc' = int (card (set (likedBy doc')))))"
proof (intro conjI impI)
  assume "userId \<notin> set (likedBy doc)"
  then have "\<not> indexOf (likedBy doc) userId > - 1" by (simp add: indexOf_iff)
  then show "unlike userId doc st = Inr (False, doc, st)" by (simp add: unlike_def Let_def)
next
  assume "likes doc = int (length (likedBy doc)) \<and> distinct (likedBy doc)"
  then have "valid_likes doc" by (simp add: valid_likes_def)
  from calls_valid [OF this, of cs st]
  obtain doc' st' where r: "calls cs doc st = Inr (doc', st')" and v: "valid_likes doc'" by blast
  from v have "0 \<le> likes doc'" "distinct (likedBy doc')" "likes doc' = int (card (set (likedBy doc')))"
    by (simp_all add: valid_likes_def distinct_card)
  with r show "\<exists>doc' st'. calls cs doc st = Inr (doc', st')
           \<and> 0 \<le> likes doc' \<and> distinct (likedBy doc')
           \<and> likes doc' = int (card (set (likedBy doc')))" by blast
qed

theorem unlike_absent_is_noop_witness:
  "''u9'' \<notin> set (likedBy \<lparr>comic_id = ''c1'', slug = ''a'', status = Published, likes = 1,
       likedBy = [''u1''], genres = [], tags = [], deletedAt = None\<rparr>)
   \<and> unlike ''u9'' \<lparr>comic_id = ''c1'', slug = ''a'', status = Published, likes = 1,
       likedBy = [''u1''], genres = [], tags = [], deletedAt = None\<rparr>
       \<lparr>comics = [], genreCount = Map.empty, tagCount = Map.empty\<rparr>
     = Inr (False, \<lparr>comic_id = ''c1'', slug = ''a'', status = Published, likes = 1,
       likedBy = [''u1''], genres = [], tags = [], deletedAt = None\<rparr>,
       \<lparr>comics = [], genreCount = Map.empty, tagCount = Map.empty\<rparr>)
   \<and> likes \<lparr>comic_id = ''c1'', slug = ''a'', status = Published, likes = 1,
       likedBy = [''u1''], genres = [], tags = [], deletedAt = None\<rparr> = int (length [''u1''])
   \<and> distinct [''u1'']
   \<and> (\<exists>doc' st'. calls [Unlike ''u1'', Unlike ''u1'', Like ''u2'', Like ''u2'']
         \<lparr>comic_id = ''c1'', slug = ''a'', status = Published, likes = 1,
          likedBy = [''u1''], genres = [], tags = [], deletedAt = None\<rparr>
         \<lparr>comics = [], genreCount = Map.empty, tagCount = Map.empty\<rparr> = Inr (doc', st')
         \<and> 0 \<le> likes doc' \<and> distinct (likedBy doc')
         \<and> likes doc' = int (card (set (likedBy doc'))))"
  using unlike_absent_is_noop
    [of "''u9''" "\<lparr>comic_id = ''c1'', slug = ''a'', status = Published, likes = 1,
       likedBy = [''u1''], genres = [], tags = [], deletedAt = None\<rparr>"
       "\<lparr>comics = [], genreCount = Map.empty, tagCount = Map.empty\<rparr>"
       "[Unlike ''u1'', Unlike ''u1'', Like ''u2'', Like ''u2'']"]
  by simp

subsection \<open>The counters of tags and genres\<close>

text \<open>
  Claim C5 says that \<^verbatim>\<open>comicCount\<close> goes up exactly when a referencing comic is
  created and down exactly when one is deleted, so that it is the number of comics that
  are not deleted and reference the tag or genre. The post-save hook runs on every
  \<^verbatim>\<open>save()\<close>, and \<^verbatim>\<open>like\<close>, \<^verbatim>\<open>unlike\<close> and \<^verbatim>\<open>softDelete\<close> save. Here
  one comic with the tag \<open>t1\<close> and the genre \<open>g1\<close> is created: both counts are 1, as
  is the number of referencing comics. A like of that comic then raises both counts to
  2, and the unlike after it to 3, with still one comic. Deleting the comic instead (the
  controller deletes softly, through \<^verbatim>\<open>save()\<close>) raises the counts to 2 with no comic
  left. The decrementing hook of \<^verbatim>\<open>findOneAndDelete\<close>, which no handler calls, would
  have brought the count back to 0.
\<close>
theorem comicCount_drifts_after_like:
  "(case createComic \<lparr>dto_slug = ''a'', dto_status = Some Published, dto_genres = Some [''g1''],
                      dto_tags = Some [''t1'']\<rparr> ''c1''
           \<lparr>comics = [], genreCount = [''g1'' \<mapsto> 0], tagCount = [''t1'' \<mapsto> 0]\<rparr> of
      Inl e \<Rightarrow> False
    | Inr (doc, st1) \<Rightarrow>
        tagCount st1 ''t1'' = Some 1 \<and> referencingTag st1 ''t1'' = 1
        \<and> genreCount st1 ''g1'' = Some 1 \<and> referencingGenre st1 ''g1'' = 1
        \<and> (case likeComic ''c1'' ''u1'' st1 of
             Inl e \<Rightarrow> False
           | Inr (r, st2) \<Rightarrow>
               r = (1, True)
               \<and> tagCount st2 ''t1'' = Some 2 \<and> referencingTag st2 ''t1'' = 1
               \<and> genreCount st2 ''g1'' = Some 2 \<and> referencingGenre st2 ''g1'' = 1
               \<and> (case unlikeComic ''c1'' ''u1'' st2 of
                    Inl e \<Rightarrow> False
                  | Inr (r', st2') \<Rightarrow>
                      r' = (0, True)
                      \<and> tagCount st2' ''t1'' = Some 3 \<and> referencingTag st2' ''t1'' = 1))
        \<and> (case deleteComic ''c1'' 5 st1 of
             Inl e \<Rightarrow> False
           | Inr st3 \<Rightarrow>
               tagCount st3 ''t1'' = Some 2 \<and> referencingTag st3 ''t1'' = 0
               \<and> genreCount st3 ''g1'' = Some 2 \<and> referencingGenre st3 ''g1'' = 0)
        \<and> tagCount (pre_findOneAndDelete (findById st1 ''c1'') st1) ''t1'' = Some 0)"
  by (simp add: createComic_def findOneBySlug_def save_def post_save_def incrementCount_def
      referencingTag_def referencingGenre_def likeComic_def unlikeComic_def findById_def
      like_def unlike_def splice1_def deleteComic_def softDelete_def pre_findOneAndDelete_def
      decrementCount_def Let_def)

subsection \<open>The overview guard\<close>

text \<open>
  Claim C10. The overview rejects a window of more than 365 days with a bad-request
  error, whatever the statistics would be; a window of at most 365 days is computed; and
  without the \<^verbatim>\<open>days\<close> parameter the window is 30 days.
\<close>
theorem getOverview_rejects_long_window:
  "(d > 365 \<longrightarrow> getOverview compute (Some d) = Inl (BadRequestError ''Date range cannot exceed 365 days''))
   \<and> (d \<le> 365 \<longrightarrow> getOverview compute (Some d) = Inr (compute d))
   \<and> getOverview compute None = Inr (compute 30)"
  by (simp add: getOverview_def)

theorem getOverview_rejects_long_window_witness:
  "(366::rat) > 365
   \<and> getOverview (\<lambda>days. days * 2) (Some 366) = Inl (BadRequestError ''Date range cannot exceed 365 days'')
   \<and> (7::rat) \<le> 365
   \<and> getOverview (\<lambda>days. days * 2) (Some 7) = Inr 14
   \<and> getOverview (\<lambda>days. days * 2) None = Inr 60"
  using getOverview_rejects_long_window [of 366 "\<lambda>days. days * 2"]
    getOverview_rejects_long_window [of 7 "\<lambda>days. days * 2"]
  by simp

subsection \<open>The trend\<close>








subsection \<open>The tag cloud\<close>

lemma findTags_floor: "t \<in> set (findTags db minCount limit) \<Longrightarrow> comicCount t \<ge> minCount"
proof -
  assume "t \<in> set (findTags db minCount limit)"
  then have "t \<in> set (sort_key (\<lambda>t. - comicCount t) (filter (\<lambda>t. comicCount t \<ge> minCount) db))"
    unfolding findTags_def by (rule in_set_takeD)
  then show ?thesis by simp
qed

lemma findTags_sorted: "sorted (map (\<lambda>t. - comicCount t) (findTags db minCount limit))"
  unfolding findTags_def take_map [symmetric] by (simp add: sorted_wrt_take)

lemma findTags_head_max:
  assumes "findTags db minCount limit = t0 # rest"
  shows "comicCount t0 = Max (comicCount ` set (findTags db minCount limit))"
proof -
  from findTags_sorted [of db minCount limit] assms
  have "\<forall>t \<in> set rest. comicCount t \<le> comicCount t0" by auto
  with assms have "\<forall>c \<in> comicCount ` set (findTags db minCount limit). c \<le> comicCount t0"
    by auto
  moreover from assms have "comicCount t0 \<in> comicCount ` set (findTags db minCount limit)" by simp
  ultimately have "Max (comicCount ` set (findTags db minCount limit)) = comicCount t0"
    by (intro Max_eqI) auto
  then show ?thesis by simp
qed

lemma cloudMaxCount_Max:
  assumes "ts = findTags db minCount limit" and "ts \<noteq> []"
  shows "cloudMaxCount ts = (if Max (comicCount ` set ts) = 0 then 1 else Max (comicCount ` set ts))"
proof -
  from assms(2) obtain t0 rest where "ts = t0 # rest" by (cases ts) auto
  with assms(1) have c: "findTags db minCount limit = t0 # rest" by simp
  from findTags_head_max [OF c] assms(1) c show ?thesis by (simp add: cloudMaxCount_def)
qed

lemma getTagCloud_tags:
  "map fst (getTagCloud db qMinCount qLimit) = findTags db (parseIntOr qMinCount 1) (parseIntOr qLimit 50)"
  by (simp add: getTagCloud_def Let_def comp_def)

lemma getTagCloud_entry:
  assumes "(t, fs) \<in> set (getTagCloud db qMinCount qLimit)"
  shows "t \<in> set (findTags db (parseIntOr qMinCount 1) (parseIntOr qLimit 50))
     \<and> fs = fontSize (parseIntOr qMinCount 1)
              (cloudMaxCount (findTags db (parseIntOr qMinCount 1) (parseIntOr qLimit 50)))
              (comicCount t)"
  using assms by (auto simp: getTagCloud_def Let_def)

lemma fontSize_mono:
  assumes "c1 \<le> c2"
  shows "fontSize minCount maxCount c1 \<le> fontSize minCount maxCount c2"
proof -
  define d :: int where "d = (if maxCount - minCount > 0 then maxCount - minCount else 1)"
  have dpos: "(0::rat) < of_int d" by (simp add: d_def)
  define q1 :: rat where "q1 = of_int (c1 - minCount) / of_int d"
  define q2 :: rat where "q2 = of_int (c2 - minCount) / of_int d"
  from assms have "(of_int (c1 - minCount) :: rat) \<le> of_int (c2 - minCount)" by simp
  with dpos have "q1 \<le> q2" unfolding q1_def q2_def by (simp add: divide_right_mono)
  then have "12 + q1 * (32 - 12) + 1 / 2 \<le> 12 + q2 * (32 - 12) + 1 / 2" by simp
  then have "\<lfloor>12 + q1 * (32 - 12) + 1 / 2\<rfloor> \<le> \<lfloor>12 + q2 * (32 - 12) + 1 / 2\<rfloor>"
    by (rule floor_mono)
  then show ?thesis by (simp add: fontSize_def Math_round_def Let_def d_def q1_def q2_def)
qed

text \<open>
  Claim C7 gives the font size of a tag as the interpolation
  \<open>12 + ((comicCount - minCount) / divisor) * (32 - 12)\<close> itself, with \<open>maxCount\<close> the
  largest count present. The handler returns \<^verbatim>\<open>Math.round\<close> of it: with counts 4 and
  2 and the default floor 1, the second tag gets 19, not \<open>56/3\<close>. And
  \<^verbatim>\<open>tags[0]?.comicCount || 1\<close> takes 1 for a largest count of 0: with the floor -1
  and one tag of count 0 the size is 22, where the largest count 0 would give 32.
\<close>
theorem tag_cloud_fontSize_not_interpolation:
  "map snd (getTagCloud [\<lparr>tag_name = ''a'', comicCount = 4\<rparr>, \<lparr>tag_name = ''b'', comicCount = 2\<rparr>]
              None None) = [32, 19]
   \<and> spec_fontSize 1 4 2 = 56 / 3
   \<and> of_int 19 \<noteq> spec_fontSize 1 4 2
   \<and> map snd (getTagCloud [\<lparr>tag_name = ''a'', comicCount = 0\<rparr>] (Some (- 1)) None) = [22]
   \<and> spec_fontSize (- 1) 0 0 = 32"
  by code_simp

text \<open>
  Claim C7, amended. For every tag of the tag-cloud result (the tags with at least
  \<open>minCount\<close> comics, \<open>minCount\<close> being the caller's floor, or 1 when that is absent or
  0), the font size is the interpolation
  \<open>12 + ((comicCount - minCount) / divisor) * (32 - 12)\<close> rounded to the nearest integer
  (a half upwards), where \<open>maxCount\<close> is the largest count in the result, or 1 when that
  is 0, and \<open>divisor = max (maxCount - minCount) 1\<close> is positive, so nothing is divided
  by zero.
\<close>
theorem tag_cloud_fontSize_rounded:
  assumes "(t, fs) \<in> set (getTagCloud db qMinCount qLimit)"
    and "minCount = parseIntOr qMinCount 1"
    and "m = Max (comicCount ` fst ` set (getTagCloud db qMinCount qLimit))"
    and "maxCount = (if m = 0 then 1 else m)"
    and "divisor = max (maxCount - minCount) 1"
  shows "comicCount t \<ge> minCount \<and> divisor > 0
     \<and> fs = \<lfloor>(12::rat) + (of_int (comicCount t - minCount) / of_int divisor) * (32 - 12) + 1 / 2\<rfloor>"
proof -
  define ts where "ts = findTags db (parseIntOr qMinCount 1) (parseIntOr qLimit 50)"
  from getTagCloud_entry [OF assms(1)]
  have mem: "t \<in> set ts" and fs: "fs = fontSize minCount (cloudMaxCount ts) (comicCount t)"
    by (simp_all add: ts_def assms(2))
  from mem have ne: "ts \<noteq> []" by auto
  have "fst ` set (getTagCloud db qMinCount qLimit) = set ts"
    using getTagCloud_tags [of db qMinCount qLimit] unfolding ts_def by (metis set_map)
  then have m: "m = Max (comicCount ` set ts)" by (simp add: assms(3) image_image)
  from cloudMaxCount_Max [OF ts_def ne] m have mx: "cloudMaxCount ts = maxCount"
    by (simp add: assms(4))
  have dv: "divisor = (if maxCount - minCount > 0 then maxCount - minCount else 1)"
    by (simp add: assms(5) max_def)
  from mem have ge: "comicCount t \<ge> minCount" unfolding ts_def assms(2) by (rule findTags_floor)
  from dv have pos: "divisor > 0" by simp
  from fs mx dv have "fs = \<lfloor>(12::rat) + (of_int (comicCount t - minCount) / of_int divisor) * (32 - 12) + 1 / 2\<rfloor>"
    by (simp add: fontSize_def Math_round_def Let_def)
  with ge pos show ?thesis by simp
qed

text \<open>
  Claim C8. For a fixed floor and a fixed largest count the font size does not decrease
  when the count grows; so of two tags of one tag-cloud result, the one with the larger
  or equal count gets the larger or equal font size.
\<close>
theorem tag_cloud_fontSize_monotone:
  "(c1 \<le> c2 \<longrightarrow> fontSize minCount maxCount c1 \<le> fontSize minCount maxCount c2)
   \<and> ((t1, f1) \<in> set (getTagCloud db qMinCount qLimit)
        \<and> (t2, f2) \<in> set (getTagCloud db qMinCount qLimit)
        \<and> comicCount t1 \<le> comicCount t2 \<longrightarrow> f1 \<le> f2)"
proof (intro conjI impI)
  assume "c1 \<le> c2"
  then show "fontSize minCount maxCount c1 \<le> fontSize minCount maxCount c2" by (rule fontSize_mono)
next
  assume a: "(t1, f1) \<in> set (getTagCloud db qMinCount qLimit)
        \<and> (t2, f2) \<in> set (getTagCloud db qMinCount qLimit)
        \<and> comicCount t1 \<le> comicCount t2"
  from a getTagCloud_entry [of t1 f1 db qMinCount qLimit] getTagCloud_entry [of t2 f2 db qMinCount qLimit]
    fontSize_mono [of "comicCount t1" "comicCount t2"]
  show "f1 \<le> f2" by simp
qed

theorem tag_cloud_fontSize_rounded_witness:
  "(\<lparr>tag_name = ''b'', comicCount = 2\<rparr>, 19)
      \<in> set (getTagCloud [\<lparr>tag_name = ''b'', comicCount = 2\<rparr>, \<lparr>tag_name = ''a'', comicCount = 4\<rparr>,
                           \<lparr>tag_name = ''c'', comicCount = 0\<rparr>] None None)
   \<and> 1 = parseIntOr None 1
   \<and> 4 = Max (comicCount ` fst ` set (getTagCloud [\<lparr>tag_name = ''b'', comicCount = 2\<rparr>,
          \<lparr>tag_name = ''a'', comicCount = 4\<rparr>, \<lparr>tag_name = ''c'', comicCount = 0\<rparr>] None None))
   \<and> (4::int) = (if (4::int) = 0 then 1 else 4)
   \<and> (3::int) = max (4 - 1) 1
   \<and> comicCount \<lparr>tag_name = ''b'', comicCount = 2\<rparr> \<ge> 1
   \<and> (19::int) = \<lfloor>(12::rat) + (of_int (comicCount \<lparr>tag_name = ''b'', comicCount = 2\<rparr> - 1) / of_int 3)
                        * (32 - 12) + 1 / 2\<rfloor>"
proof -
  have h1: "(\<lparr>tag_name = ''b'', comicCount = 2\<rparr>, 19)
      \<in> set (getTagCloud [\<lparr>tag_name = ''b'', comicCount = 2\<rparr>, \<lparr>tag_name = ''a'', comicCount = 4\<rparr>,
                           \<lparr>tag_name = ''c'', comicCount = 0\<rparr>] None None)"
    by code_simp
  have h2: "1 = parseIntOr None 1" by (simp add: parseIntOr_def)
  have h3: "4 = Max (comicCount ` fst ` set (getTagCloud [\<lparr>tag_name = ''b'', comicCount = 2\<rparr>,
          \<lparr>tag_name = ''a'', comicCount = 4\<rparr>, \<lparr>tag_name = ''c'', comicCount = 0\<rparr>] None None))"
    by code_simp
  have h4: "(4::int) = (if (4::int) = 0 then 1 else 4)" by simp
  have h5: "(3::int) = max (4 - 1) 1" by simp
  from tag_cloud_fontSize_rounded [OF h1 h2 h3 h4 h5] h1 h2 h3 h4 h5 show ?thesis by blast
qed

theorem tag_cloud_fontSize_monotone_witness:
  "(2::int) \<le> 4 \<and> fontSize 1 4 2 \<le> fontSize 1 4 4
   \<and> (\<lparr>tag_name = ''b'', comicCount = 2\<rparr>, 19)
      \<in> set (getTagCloud [\<lparr>tag_name = ''b'', comicCount = 2\<rparr>, \<lparr>tag_name = ''a'', comicCount = 4\<rparr>] None None)
   \<and> (\<lparr>tag_name = ''a'', comicCount = 4\<rparr>, 32)
      \<in> set (getTagCloud [\<lparr>tag_name = ''b'', comicCount = 2\<rparr>, \<lparr>tag_name = ''a'', comicCount = 4\<rparr>] None None)
   \<and> comicCount \<lparr>tag_name = ''b'', comicCount = 2\<rparr> \<le> comicCount \<lparr>tag_name = ''a'', comicCount = 4\<rparr>
   \<and> (19::int) \<le> 32"
proof -
  have h1: "(2::int) \<le> 4" by simp
  have h2: "(\<lparr>tag_name = ''b'', comicCount = 2\<rparr>, 19)
      \<in> set (getTagCloud [\<lparr>tag_name = ''b'', comicCount = 2\<rparr>, \<lparr>tag_name = ''a'', comicCount = 4\<rparr>] None None)"
    by code_simp
  have h3: "(\<lparr>tag_name = ''a'', comicCount = 4\<rparr>, 32)
      \<in> set (getTagCloud [\<lparr>tag_name = ''b'', comicCount = 2\<rparr>, \<lparr>tag_name = ''a'', comicCount = 4\<rparr>] None None)"
    by code_simp
  have h4: "comicCount \<lparr>tag_name = ''b'', comicCount = 2\<rparr> \<le> comicCount \<lparr>tag_name = ''a'', comicCount = 4\<rparr>"
    by simp
  from tag_cloud_fontSize_monotone [of 2 4 1 4 "\<lparr>tag_name = ''b'', comicCount = 2\<rparr>" 19
      "[\<lparr>tag_name = ''b'', comicCount = 2\<rparr>, \<lparr>tag_name = ''a'', comicCount = 4\<rparr>]" None None
      "\<lparr>tag_name = ''a'', comicCount = 4\<rparr>" 32] h1 h2 h3 h4
  show ?thesis by blast
qed

subsection \<open>The lockout\<close>







subsection \<open>Slugs\<close>










end
